theory Spec2Isabelle
  imports Complex_Main
begin

section \<open>Values, exceptions and the logger\<close>

text \<open>
  The module \<^verbatim>\<open>ksys_app/db.py\<close> talks to three collaborators: the process
  environment, the asyncpg driver and the module logger. The model makes each of
  them explicit. Query parameter values and column values are Python objects; only
  their identity matters here.
\<close>

datatype pyval = PInt int | PStr string | PNone

text \<open>
  The \<^verbatim>\<open>params\<close> argument is a tuple or a dict. A dict keeps insertion order, so it
  is an association list.
\<close>

datatype params = PTuple "pyval list" | PDict "(pyval \<times> pyval) list"

type_synonym row = "(string \<times> pyval) list"

text \<open>
  Exception classes as the handlers of the module tell them apart:
  \<^verbatim>\<open>asyncio.TimeoutError\<close>, \<^verbatim>\<open>RuntimeError\<close> (raised by \<^verbatim>\<open>_dsn\<close>),
  \<^verbatim>\<open>asyncio.CancelledError\<close> (a \<^verbatim>\<open>BaseException\<close> that no
  \<^verbatim>\<open>except Exception\<close> clause catches), and every other subclass of
  \<^verbatim>\<open>Exception\<close>, by its class name.
\<close>

datatype exc_class = TimeoutError | RuntimeError | CancelledError | OtherException string

datatype exn = Exn (exn_class: exc_class) (exn_msg: string)

definition is_TimeoutError :: "exn \<Rightarrow> bool" where
  "is_TimeoutError e = (exn_class e = TimeoutError)"

definition is_Exception :: "exn \<Rightarrow> bool" where
  "is_Exception e = (exn_class e \<noteq> CancelledError)"

definition str :: "exn \<Rightarrow> string" where
  "str e = exn_msg e"

datatype level = DEBUG | INFO | WARNING | ERROR

text \<open>
  One constructor per message template of the module; the interpolated values are
  the constructor's arguments (a float is kept as the number it prints).
\<close>

datatype message =
    Msg_dsn_not_set
  | Msg_dsn_retrieved string
  | Msg_creating_pool nat
  | Msg_pool_created nat
  | Msg_pool_create_failed string
  | Msg_slow_query real string
  | Msg_query_completed real nat
  | Msg_pool_timeout string
  | Msg_direct_completed real
  | Msg_direct_failed string
  | Msg_query_failed string
  | Msg_slow_execute real string
  | Msg_execute_completed real
  | Msg_pool_timeout_execute string
  | Msg_direct_execute_completed real
  | Msg_direct_execute_failed string
  | Msg_execute_failed string
  | Msg_sql string
  | Msg_params params
  | Msg_pool_closed
  | Msg_pool_close_error string

type_synonym pool = nat
type_synonym conn = nat

text \<open>Every call into asyncpg is recorded, in order, with its arguments.\<close>

datatype event =
    Ev_create_pool string nat nat real real
  | Ev_acquire pool
  | Ev_release pool conn
  | Ev_fetch conn string "pyval list" real
  | Ev_execute conn string "pyval list" real
  | Ev_connect string
  | Ev_conn_close conn
  | Ev_pool_close pool

section \<open>The environment of one call\<close>

text \<open>
  What the collaborators answer during one call of a module function: the value of
  \<^verbatim>\<open>TS_DSN\<close>, the process id, whether the logger is enabled for DEBUG, the
  outcome of each asyncpg operation (an exception or a value), and the readings of the
  event loop's clock at the start of the call, after the pooled execution and after the
  direct execution.

  The clock readings are Python floats, that is, the real numbers that are IEEE doubles.
  The elapsed time is their floating-point difference, which is the exact difference
  rounded to a double. The rounding is not reproduced here: the subtraction
  \<^verbatim>\<open>float_sub\<close> is part of the environment, so whatever is proved holds for the
  subtraction of the interpreter as for any other. Comparing the result with
  \<^verbatim>\<open>1.0\<close> is exact.
\<close>

record world =
  environ_TS_DSN :: "string option"
  getpid :: nat
  debug_enabled :: bool
  create_pool :: "string \<Rightarrow> nat \<Rightarrow> nat \<Rightarrow> real \<Rightarrow> real \<Rightarrow> exn + pool"
  pool_acquire :: "pool \<Rightarrow> exn + conn"
  pool_release :: "pool \<Rightarrow> conn \<Rightarrow> exn option"
  conn_fetch :: "conn \<Rightarrow> string \<Rightarrow> pyval list \<Rightarrow> real \<Rightarrow> exn + row list"
  conn_execute :: "conn \<Rightarrow> string \<Rightarrow> pyval list \<Rightarrow> real \<Rightarrow> exn option"
  connect :: "string \<Rightarrow> exn + conn"
  conn_close :: "conn \<Rightarrow> exn option"
  pool_close :: "pool \<Rightarrow> exn option"
  time_start :: real
  time_pool_done :: real
  time_direct_done :: real
  float_sub :: "real \<Rightarrow> real \<Rightarrow> real"

text \<open>
  The module state: the global \<^verbatim>\<open>_GLOBAL_POOL\<close>, the entries handed to the logger
  and the asyncpg calls made so far.
\<close>

record state =
  GLOBAL_POOL :: "pool option"
  logged :: "(level \<times> message) list"
  calls :: "event list"

definition logger :: "level \<Rightarrow> message \<Rightarrow> state \<Rightarrow> state" where
  "logger lv m s = s\<lparr>logged := logged s @ [(lv, m)]\<rparr>"

definition call :: "event \<Rightarrow> state \<Rightarrow> state" where
  "call ev s = s\<lparr>calls := calls s @ [ev]\<rparr>"

section \<open>The connection pool manager\<close>

text \<open>
  \<^verbatim>\<open>_dsn\<close>: \<^verbatim>\<open>os.environ.get("TS_DSN", "")\<close>, a \<^verbatim>\<open>RuntimeError\<close> when the
  value is empty. The decorator \<^verbatim>\<open>log_function\<close> lives in a module outside the
  sources at hand and is taken to call the function unchanged.
\<close>

definition dsn :: "world \<Rightarrow> state \<Rightarrow> (exn + string) \<times> state" where
  "dsn w s =
     (let d = (case environ_TS_DSN w of None \<Rightarrow> [] | Some v \<Rightarrow> v) in
      if d = [] then
        (Inl (Exn RuntimeError ''TS_DSN is not set in environment''),
         logger ERROR Msg_dsn_not_set s)
      else (Inr d, logger DEBUG (Msg_dsn_retrieved (take 30 d)) s))"

text \<open>
  The \<^verbatim>\<open>except Exception\<close> clause of \<^verbatim>\<open>get_pool\<close>: log, reset the global,
  re-raise. An exception outside \<^verbatim>\<open>Exception\<close> passes through untouched.
\<close>

definition get_pool_except :: "exn \<Rightarrow> state \<Rightarrow> (exn + pool) \<times> state" where
  "get_pool_except e s =
     (if is_Exception e then
        (Inl e, (logger ERROR (Msg_pool_create_failed (str e)) s)\<lparr>GLOBAL_POOL := None\<rparr>)
      else (Inl e, s))"

text \<open>
  \<^verbatim>\<open>get_pool\<close>, run by one task: the lock is free when it is requested and is
  released on every way out, so the second test sees the global as the first did.
  The argument \<^verbatim>\<open>_dsn()\<close> is evaluated before \<^verbatim>\<open>asyncpg.create_pool\<close> is
  called.
\<close>

definition get_pool :: "world \<Rightarrow> state \<Rightarrow> (exn + pool) \<times> state" where
  "get_pool w s =
     (case GLOBAL_POOL s of
        Some p \<Rightarrow> (Inr p, s)
      | None \<Rightarrow>
          (case GLOBAL_POOL s of
             Some p \<Rightarrow> (Inr p, s)
           | None \<Rightarrow>
               (let s1 = logger INFO (Msg_creating_pool (getpid w)) s in
                case dsn w s1 of
                  (Inl e, s2) \<Rightarrow> get_pool_except e s2
                | (Inr d, s2) \<Rightarrow>
                    (let s3 = call (Ev_create_pool d 1 10 30 30) s2 in
                     case create_pool w d 1 10 30 30 of
                       Inl e \<Rightarrow> get_pool_except e s3
                     | Inr p \<Rightarrow>
                         (Inr p,
                          logger INFO (Msg_pool_created (getpid w))
                            (s3\<lparr>GLOBAL_POOL := Some p\<rparr>))))))"

text \<open>
  \<^verbatim>\<open>close_pool\<close>: the global is cleared after \<^verbatim>\<open>close()\<close> returned; an
  \<^verbatim>\<open>Exception\<close> raised by \<^verbatim>\<open>close()\<close> is logged and swallowed, any other
  exception leaves the function.
\<close>

definition close_pool :: "world \<Rightarrow> state \<Rightarrow> (exn + unit) \<times> state" where
  "close_pool w s =
     (case GLOBAL_POOL s of
        None \<Rightarrow> (Inr (), s)
      | Some p \<Rightarrow>
          (let s1 = call (Ev_pool_close p) s in
           case pool_close w p of
             None \<Rightarrow> (Inr (), logger INFO Msg_pool_closed (s1\<lparr>GLOBAL_POOL := None\<rparr>))
           | Some e \<Rightarrow>
               (if is_Exception e then
                  (Inr (), logger ERROR (Msg_pool_close_error (str e)) s1)
                else (Inl e, s1))))"

section \<open>The query executor\<close>

text \<open>
  The statement \<^verbatim>\<open>if isinstance(params, dict): params = tuple(params.values()) if
  params else ()\<close>: a dict becomes the tuple of its values, a tuple is left as it is.
\<close>

definition normalize_params :: "params \<Rightarrow> params" where
  "normalize_params ps =
     (case ps of
        PDict d \<Rightarrow> (if d \<noteq> [] then PTuple (map snd d) else PTuple [])
      | PTuple t \<Rightarrow> PTuple t)"

text \<open>
  The call argument \<^verbatim>\<open>*params\<close>: the elements of a tuple; iterating a dict
  yields its keys.
\<close>

definition unpack :: "params \<Rightarrow> pyval list" where
  "unpack ps = (case ps of PTuple t \<Rightarrow> t | PDict d \<Rightarrow> map fst d)"

text \<open>
  The body of \<^verbatim>\<open>async with pool.acquire() as conn\<close> in \<^verbatim>\<open>q\<close>: fetch, take the
  time, log a slow query when more than one second has passed.
\<close>

definition q_with_conn ::
  "world \<Rightarrow> conn \<Rightarrow> string \<Rightarrow> params \<Rightarrow> real \<Rightarrow> state \<Rightarrow> (exn + row list) \<times> state" where
  "q_with_conn w c sql ps timeout s =
     (let s1 = call (Ev_fetch c sql (unpack ps) timeout) s in
      case conn_fetch w c sql (unpack ps) timeout of
        Inl e \<Rightarrow> (Inl e, s1)
      | Inr results \<Rightarrow>
          (let elapsed = float_sub w (time_pool_done w) (time_start w) in
           if elapsed > 1 then
             (Inr results, logger WARNING (Msg_slow_query elapsed (take 100 sql)) s1)
           else if debug_enabled w then
             (Inr results, logger DEBUG (Msg_query_completed elapsed (length results)) s1)
           else (Inr results, s1)))"

text \<open>
  The \<^verbatim>\<open>try\<close> block of \<^verbatim>\<open>q\<close>. It returns, beside the outcome, the value the
  variable \<^verbatim>\<open>params\<close> holds when the block is left, since both handlers read it.
  Leaving the \<^verbatim>\<open>async with\<close> releases the connection; an exception raised by the
  release replaces the outcome of the body.
\<close>

definition q_try ::
  "world \<Rightarrow> string \<Rightarrow> params \<Rightarrow> real \<Rightarrow> state \<Rightarrow> (exn + row list) \<times> params \<times> state" where
  "q_try w sql ps timeout s =
     (case get_pool w s of
        (Inl e, s1) \<Rightarrow> (Inl e, ps, s1)
      | (Inr p, s1) \<Rightarrow>
          (let ps' = normalize_params ps;
               s2 = call (Ev_acquire p) s1 in
           case pool_acquire w p of
             Inl e \<Rightarrow> (Inl e, ps', s2)
           | Inr c \<Rightarrow>
               (case q_with_conn w c sql ps' timeout s2 of
                  (r, s3) \<Rightarrow>
                    (let s4 = call (Ev_release p c) s3 in
                     case pool_release w p c of
                       Some e \<Rightarrow> (Inl e, ps', s4)
                     | None \<Rightarrow> (r, ps', s4)))))"

text \<open>
  The handler \<^verbatim>\<open>except asyncio.TimeoutError\<close> of \<^verbatim>\<open>q\<close>: one direct
  connection, closed in the \<^verbatim>\<open>finally\<close> clause (an exception raised by
  \<^verbatim>\<open>close()\<close> replaces the outcome), and the inner \<^verbatim>\<open>except Exception\<close> that
  logs and re-raises.
\<close>

definition q_direct_except :: "exn \<Rightarrow> state \<Rightarrow> (exn + row list) \<times> state" where
  "q_direct_except e2 s =
     (if is_Exception e2 then (Inl e2, logger ERROR (Msg_direct_failed (str e2)) s)
      else (Inl e2, s))"

definition q_direct ::
  "world \<Rightarrow> string \<Rightarrow> params \<Rightarrow> real \<Rightarrow> exn \<Rightarrow> state \<Rightarrow> (exn + row list) \<times> state" where
  "q_direct w sql ps timeout e s =
     (let s1 = logger WARNING (Msg_pool_timeout (str e)) s in
      case dsn w s1 of
        (Inl e2, s2) \<Rightarrow> q_direct_except e2 s2
      | (Inr d, s2) \<Rightarrow>
          (let s3 = call (Ev_connect d) s2 in
           case connect w d of
             Inl e2 \<Rightarrow> q_direct_except e2 s3
           | Inr c \<Rightarrow>
               (let s4 = call (Ev_fetch c sql (unpack ps) timeout) s3;
                    r = conn_fetch w c sql (unpack ps) timeout;
                    s5 = (case r of
                            Inl e2 \<Rightarrow> s4
                          | Inr results \<Rightarrow>
                              logger INFO
                                (Msg_direct_completed (float_sub w (time_direct_done w) (time_start w))) s4);
                    s6 = call (Ev_conn_close c) s5 in
                case conn_close w c of
                  Some e3 \<Rightarrow> q_direct_except e3 s6
                | None \<Rightarrow>
                    (case r of
                       Inl e2 \<Rightarrow> q_direct_except e2 s6
                     | Inr results \<Rightarrow> (Inr results, s6)))))"

text \<open>
  \<^verbatim>\<open>q\<close>: the \<^verbatim>\<open>try\<close> block, then the first handler whose class matches.
  An exception raised inside a handler is not offered to the handlers that follow it.
\<close>

definition q :: "world \<Rightarrow> string \<Rightarrow> params \<Rightarrow> real \<Rightarrow> state \<Rightarrow> (exn + row list) \<times> state" where
  "q w sql ps timeout s =
     (case q_try w sql ps timeout s of
        (Inr results, ps', s1) \<Rightarrow> (Inr results, s1)
      | (Inl e, ps', s1) \<Rightarrow>
          (if is_TimeoutError e then q_direct w sql ps' timeout e s1
           else if is_Exception e then
             (Inl e,
              logger ERROR (Msg_params ps')
                (logger ERROR (Msg_sql sql) (logger ERROR (Msg_query_failed (str e)) s1)))
           else (Inl e, s1)))"

text \<open>
  \<^verbatim>\<open>execute_query\<close> has the shape of \<^verbatim>\<open>q\<close>, with \<^verbatim>\<open>conn.execute\<close> in place
  of \<^verbatim>\<open>conn.fetch\<close>, no rows, and its own log messages.
\<close>

definition execute_with_conn ::
  "world \<Rightarrow> conn \<Rightarrow> string \<Rightarrow> params \<Rightarrow> real \<Rightarrow> state \<Rightarrow> (exn + unit) \<times> state" where
  "execute_with_conn w c sql ps timeout s =
     (let s1 = call (Ev_execute c sql (unpack ps) timeout) s in
      case conn_execute w c sql (unpack ps) timeout of
        Some e \<Rightarrow> (Inl e, s1)
      | None \<Rightarrow>
          (let elapsed = float_sub w (time_pool_done w) (time_start w) in
           if elapsed > 1 then
             (Inr (), logger WARNING (Msg_slow_execute elapsed (take 100 sql)) s1)
           else if debug_enabled w then
             (Inr (), logger DEBUG (Msg_execute_completed elapsed) s1)
           else (Inr (), s1)))"

definition execute_try ::
  "world \<Rightarrow> string \<Rightarrow> params \<Rightarrow> real \<Rightarrow> state \<Rightarrow> (exn + unit) \<times> params \<times> state" where
  "execute_try w sql ps timeout s =
     (case get_pool w s of
        (Inl e, s1) \<Rightarrow> (Inl e, ps, s1)
      | (Inr p, s1) \<Rightarrow>
          (let ps' = normalize_params ps;
               s2 = call (Ev_acquire p) s1 in
           case pool_acquire w p of
             Inl e \<Rightarrow> (Inl e, ps', s2)
           | Inr c \<Rightarrow>
               (case execute_with_conn w c sql ps' timeout s2 of
                  (r, s3) \<Rightarrow>
                    (let s4 = call (Ev_release p c) s3 in
                     case pool_release w p c of
                       Some e \<Rightarrow> (Inl e, ps', s4)
                     | None \<Rightarrow> (r, ps', s4)))))"

definition execute_direct_except :: "exn \<Rightarrow> state \<Rightarrow> (exn + unit) \<times> state" where
  "execute_direct_except e2 s =
     (if is_Exception e2 then (Inl e2, logger ERROR (Msg_direct_execute_failed (str e2)) s)
      else (Inl e2, s))"

definition execute_direct ::
  "world \<Rightarrow> string \<Rightarrow> params \<Rightarrow> real \<Rightarrow> exn \<Rightarrow> state \<Rightarrow> (exn + unit) \<times> state" where
  "execute_direct w sql ps timeout e s =
     (let s1 = logger WARNING (Msg_pool_timeout_execute (str e)) s in
      case dsn w s1 of
        (Inl e2, s2) \<Rightarrow> execute_direct_except e2 s2
      | (Inr d, s2) \<Rightarrow>
          (let s3 = call (Ev_connect d) s2 in
           case connect w d of
             Inl e2 \<Rightarrow> execute_direct_except e2 s3
           | Inr c \<Rightarrow>
               (let s4 = call (Ev_execute c sql (unpack ps) timeout) s3;
                    r = conn_execute w c sql (unpack ps) timeout;
                    s5 = (case r of
                            Some e2 \<Rightarrow> s4
                          | None \<Rightarrow>
                              logger INFO
                                (Msg_direct_execute_completed
                                   (float_sub w (time_direct_done w) (time_start w))) s4);
                    s6 = call (Ev_conn_close c) s5 in
                case conn_close w c of
                  Some e3 \<Rightarrow> execute_direct_except e3 s6
                | None \<Rightarrow>
                    (case r of
                       Some e2 \<Rightarrow> execute_direct_except e2 s6
                     | None \<Rightarrow> (Inr (), s6)))))"

definition execute_query ::
  "world \<Rightarrow> string \<Rightarrow> params \<Rightarrow> real \<Rightarrow> state \<Rightarrow> (exn + unit) \<times> state" where
  "execute_query w sql ps timeout s =
     (case execute_try w sql ps timeout s of
        (Inr u, ps', s1) \<Rightarrow> (Inr (), s1)
      | (Inl e, ps', s1) \<Rightarrow>
          (if is_TimeoutError e then execute_direct w sql ps' timeout e s1
           else if is_Exception e then
             (Inl e,
              logger ERROR (Msg_params ps')
                (logger ERROR (Msg_sql sql) (logger ERROR (Msg_execute_failed (str e)) s1)))
           else (Inl e, s1)))"

section \<open>The pagination component\<close>











section \<open>Observations on a run\<close>

text \<open>
  The log and the call history only grow, so what one call did is read off by
  comparing them before and after: the direct connections opened, the statements
  executed, the warnings of each kind.
\<close>

fun is_connect :: "event \<Rightarrow> bool" where
  "is_connect (Ev_connect d) = True"
| "is_connect _ = False"

fun is_create_pool :: "event \<Rightarrow> bool" where
  "is_create_pool (Ev_create_pool d mn mx t ct) = True"
| "is_create_pool _ = False"

fun is_exec :: "event \<Rightarrow> bool" where
  "is_exec (Ev_fetch c sql args t) = True"
| "is_exec (Ev_execute c sql args t) = True"
| "is_exec _ = False"

fun is_timeout_msg :: "message \<Rightarrow> bool" where
  "is_timeout_msg (Msg_pool_timeout m) = True"
| "is_timeout_msg (Msg_pool_timeout_execute m) = True"
| "is_timeout_msg _ = False"

fun is_slow_msg :: "message \<Rightarrow> bool" where
  "is_slow_msg (Msg_slow_query el sql) = True"
| "is_slow_msg (Msg_slow_execute el sql) = True"
| "is_slow_msg _ = False"

definition is_pool_timeout_warning :: "level \<times> message \<Rightarrow> bool" where
  "is_pool_timeout_warning lm = (fst lm = WARNING \<and> is_timeout_msg (snd lm))"

definition is_slow_warning :: "level \<times> message \<Rightarrow> bool" where
  "is_slow_warning lm = (fst lm = WARNING \<and> is_slow_msg (snd lm))"


definition pool_creations :: "state \<Rightarrow> event list" where
  "pool_creations s = filter is_create_pool (calls s)"

definition executions :: "state \<Rightarrow> event list" where
  "executions s = filter is_exec (calls s)"


definition slow_warnings :: "state \<Rightarrow> (level \<times> message) list" where
  "slow_warnings s = filter is_slow_warning (logged s)"


definition raises_class :: "exc_class \<Rightarrow> exn + 'a \<Rightarrow> bool" where
  "raises_class cls r = (case r of Inl e \<Rightarrow> exn_class e = cls | Inr v \<Rightarrow> False)"

definition only_warnings :: "(level \<times> message \<Rightarrow> bool) \<Rightarrow> bool" where
  "only_warnings P = (\<forall>lv m. P (lv, m) \<longrightarrow> lv = WARNING)"

section \<open>Sample runs\<close>

text \<open>
  A database that answers every request: the pool is number 1, its connection number
  7, a direct connection number 9, and a query takes a quarter of a second. The clock
  readings of the sample runs are doubles whose differences are doubles too, so the
  floating-point subtraction is the exact one on them.
\<close>

definition w_ok :: world where
  "w_ok =
     \<lparr> environ_TS_DSN = Some ''postgresql://ts@db/ksys'', getpid = 4242,
       debug_enabled = False,
       create_pool = (\<lambda>d mn mx t ct. Inr 1),
       pool_acquire = (\<lambda>p. Inr 7),
       pool_release = (\<lambda>p c. None),
       conn_fetch = (\<lambda>c sql args t. Inr [[(''n'', PInt 1)]]),
       conn_execute = (\<lambda>c sql args t. None),
       connect = (\<lambda>d. Inr 9),
       conn_close = (\<lambda>c. None),
       pool_close = (\<lambda>p. None),
       time_start = 100, time_pool_done = 100 + 1 / 4, time_direct_done = 131,
       float_sub = (\<lambda>a b. a - b) \<rparr>"

definition s_init :: state where
  "s_init = \<lparr> GLOBAL_POOL = None, logged = [], calls = [] \<rparr>"

definition s_pooled :: state where
  "s_pooled = \<lparr> GLOBAL_POOL = Some 1, logged = [], calls = [] \<rparr>"

definition timeout_exn :: exn where
  "timeout_exn = Exn TimeoutError []"

definition refused_exn :: exn where
  "refused_exn = Exn (OtherException ''ConnectionRefusedError'') ''connection refused''"

definition days_tag :: params where
  "days_tag = PDict [(PStr ''days'', PInt 7), (PStr ''tag'', PStr ''X'')]"

definition syntax_exn :: exn where
  "syntax_exn = Exn (OtherException ''PostgresSyntaxError'') ''syntax error at or near FROM''"

definition close_exn :: exn where
  "close_exn = Exn (OtherException ''InterfaceError'') ''pool is closing''"


text \<open>The pool is exhausted: acquiring a connection times out.\<close>

definition w_acquire_timeout :: world where
  "w_acquire_timeout = w_ok\<lparr>pool_acquire := (\<lambda>p. Inl timeout_exn)\<rparr>"


text \<open>Creating the pool times out (the database does not answer in 30 seconds).\<close>

definition w_create_timeout :: world where
  "w_create_timeout = w_ok\<lparr>create_pool := (\<lambda>d mn mx t ct. Inl timeout_exn)\<rparr>"

text \<open>The database is down when the pool is created.\<close>

definition w_refused_pool :: world where
  "w_refused_pool = w_ok\<lparr>create_pool := (\<lambda>d mn mx t ct. Inl refused_exn)\<rparr>"

text \<open>The statement is rejected by the database.\<close>

definition w_sql_error :: world where
  "w_sql_error =
     w_ok\<lparr>conn_fetch := (\<lambda>c sql args t. Inl syntax_exn),
          conn_execute := (\<lambda>c sql args t. Some syntax_exn)\<rparr>"

text \<open>A query that takes two seconds on the pooled connection.\<close>

definition w_slow :: world where
  "w_slow = w_ok\<lparr>time_pool_done := 102\<rparr>"

text \<open>
  Two clock readings whose exact difference is a little more than one second and whose
  floating-point difference is exactly \<^verbatim>\<open>1.0\<close>: the exact difference lies below
  the midpoint of the neighbouring doubles \<open>1\<close> and \<open>1 + 1 / 2 ^ 52\<close>.
\<close>

definition w_rounding :: world where
  "w_rounding =
     w_ok\<lparr>time_start := 1 / 2 ^ 53 + 1 / 2 ^ 60, time_pool_done := 1 + 1 / 2 ^ 52,
          float_sub :=
            (\<lambda>a b. if a = 1 + 1 / 2 ^ 52 \<and> b = 1 / 2 ^ 53 + 1 / 2 ^ 60 then 1 else a - b)\<rparr>"

text \<open>Closing the pool fails.\<close>

definition w_close_fails :: world where
  "w_close_fails = w_ok\<lparr>pool_close := (\<lambda>p. Some close_exn)\<rparr>"

section \<open>Basic facts about the log and the call history\<close>

lemma only_warnings_timeout [simp]: "only_warnings is_pool_timeout_warning"
  by (simp add: only_warnings_def is_pool_timeout_warning_def)

lemma only_warnings_slow [simp]: "only_warnings is_slow_warning"
  by (simp add: only_warnings_def is_slow_warning_def)

lemma only_warningsD [simp]:
  "only_warnings P \<Longrightarrow> \<not> P (INFO, m)"
  "only_warnings P \<Longrightarrow> \<not> P (ERROR, m)"
  "only_warnings P \<Longrightarrow> \<not> P (DEBUG, m)"
  by (auto simp: only_warnings_def)

lemma logger_sel [simp]:
  "logged (logger lv m s) = logged s @ [(lv, m)]"
  "calls (logger lv m s) = calls s"
  "GLOBAL_POOL (logger lv m s) = GLOBAL_POOL s"
  by (simp_all add: logger_def)

lemma call_sel [simp]:
  "logged (call ev s) = logged s"
  "calls (call ev s) = calls s @ [ev]"
  "GLOBAL_POOL (call ev s) = GLOBAL_POOL s"
  by (simp_all add: call_def)

section \<open>Pool creation\<close>

lemma dsn_frame [simp]:
  "calls (snd (dsn w s)) = calls s"
  "GLOBAL_POOL (snd (dsn w s)) = GLOBAL_POOL s"
  "only_warnings P \<Longrightarrow> filter P (logged (snd (dsn w s))) = filter P (logged s)"
  by (simp_all add: dsn_def Let_def)

lemma dsn_unset:
  "environ_TS_DSN w = None \<or> environ_TS_DSN w = Some [] \<Longrightarrow>
   fst (dsn w s) = Inl (Exn RuntimeError ''TS_DSN is not set in environment'')"
  by (auto simp: dsn_def)

lemma dsn_set:
  "environ_TS_DSN w = Some d \<Longrightarrow> d \<noteq> [] \<Longrightarrow> fst (dsn w s) = Inr d"
  by (simp add: dsn_def)

lemma get_pool_except_frame [simp]:
  "fst (get_pool_except e s) = Inl e"
  "calls (snd (get_pool_except e s)) = calls s"
  "GLOBAL_POOL s = None \<Longrightarrow> GLOBAL_POOL (snd (get_pool_except e s)) = None"
  "only_warnings P \<Longrightarrow> filter P (logged (snd (get_pool_except e s))) = filter P (logged s)"
  by (simp_all add: get_pool_except_def)

lemma get_pool_existing:
  "GLOBAL_POOL s = Some p \<Longrightarrow> get_pool w s = (Inr p, s)"
  by (simp add: get_pool_def)

lemma get_pool_unset_dsn:
  "GLOBAL_POOL s = None \<Longrightarrow> environ_TS_DSN w = None \<or> environ_TS_DSN w = Some [] \<Longrightarrow>
   fst (get_pool w s) = Inl (Exn RuntimeError ''TS_DSN is not set in environment'')
   \<and> calls (snd (get_pool w s)) = calls s
   \<and> GLOBAL_POOL (snd (get_pool w s)) = None"
  by (simp add: get_pool_def Let_def split_beta dsn_unset split: sum.splits)

lemma get_pool_create:
  "GLOBAL_POOL s = None \<Longrightarrow> environ_TS_DSN w = Some d \<Longrightarrow> d \<noteq> [] \<Longrightarrow>
   fst (get_pool w s) = create_pool w d 1 10 30 30
   \<and> calls (snd (get_pool w s)) = calls s @ [Ev_create_pool d 1 10 30 30]
   \<and> GLOBAL_POOL (snd (get_pool w s)) =
       (case create_pool w d 1 10 30 30 of Inl e \<Rightarrow> None | Inr p \<Rightarrow> Some p)"
  by (simp add: get_pool_def Let_def split_beta dsn_set split: sum.splits)

lemma get_pool_logged [simp]:
  "only_warnings P \<Longrightarrow> filter P (logged (snd (get_pool w s))) = filter P (logged s)"
  by (simp add: get_pool_def Let_def split_beta split: option.splits sum.splits)

lemma get_pool_calls:
  "(\<And>d a b c e. \<not> P (Ev_create_pool d a b c e)) \<Longrightarrow>
   filter P (calls (snd (get_pool w s))) = filter P (calls s)"
  by (simp add: get_pool_def Let_def split_beta split: option.splits sum.splits)

lemma get_pool_GLOBAL:
  "GLOBAL_POOL (snd (get_pool w s)) =
     (case fst (get_pool w s) of Inl e \<Rightarrow> None | Inr p \<Rightarrow> Some p)"
  by (simp add: get_pool_def Let_def split_beta split: option.splits sum.splits)

lemma get_pool_fails_unset:
  "fst (get_pool w s) = Inl e \<Longrightarrow> GLOBAL_POOL s = None"
  by (simp add: get_pool_def split: option.splits)

text \<open>
  Claim C2, as amended. With \<^verbatim>\<open>TS_DSN\<close> absent or empty and no pool yet,
  \<^verbatim>\<open>get_pool\<close> fails before asyncpg is called at all: the call history is
  unchanged and the global stays unset. The exception is the \<^verbatim>\<open>RuntimeError\<close>
  that \<^verbatim>\<open>_dsn\<close> raises; the module defines no class of its own for it.
\<close>

theorem get_pool_missing_dsn:
  assumes "GLOBAL_POOL s = None"
    and "environ_TS_DSN w = None \<or> environ_TS_DSN w = Some []"
  shows "fst (get_pool w s) = Inl (Exn RuntimeError ''TS_DSN is not set in environment'')
         \<and> calls (snd (get_pool w s)) = calls s
         \<and> GLOBAL_POOL (snd (get_pool w s)) = None"
  using assms by (rule get_pool_unset_dsn)

theorem get_pool_missing_dsn_witness:
  "GLOBAL_POOL s_init = None
   \<and> environ_TS_DSN (w_ok\<lparr>environ_TS_DSN := None\<rparr>) = None
   \<and> fst (get_pool (w_ok\<lparr>environ_TS_DSN := None\<rparr>) s_init) =
       Inl (Exn RuntimeError ''TS_DSN is not set in environment'')
   \<and> calls (snd (get_pool (w_ok\<lparr>environ_TS_DSN := None\<rparr>) s_init)) = []"
  using get_pool_missing_dsn [of s_init "w_ok\<lparr>environ_TS_DSN := None\<rparr>"]
  by (simp add: s_init_def w_ok_def)

text \<open>
  Claim C2 as stated fails on the class of the error: without \<^verbatim>\<open>TS_DSN\<close> the
  first \<^verbatim>\<open>get_pool\<close> raises a \<^verbatim>\<open>RuntimeError\<close>, not a
  \<^verbatim>\<open>ConfigurationError\<close>.
\<close>

theorem get_pool_missing_dsn_not_ConfigurationError:
  "raises_class RuntimeError (fst (get_pool (w_ok\<lparr>environ_TS_DSN := None\<rparr>) s_init))
   \<and> \<not> raises_class (OtherException ''ConfigurationError'')
         (fst (get_pool (w_ok\<lparr>environ_TS_DSN := None\<rparr>) s_init))"
  by (simp add: raises_class_def get_pool_def dsn_def s_init_def w_ok_def Let_def)

section \<open>The pagination text\<close>












section \<open>The pooled attempt of q\<close>

lemma q_with_conn_frame [simp]:
  "fst (q_with_conn w c sql ps t s) = conn_fetch w c sql (unpack ps) t"
  "calls (snd (q_with_conn w c sql ps t s)) = calls s @ [Ev_fetch c sql (unpack ps) t]"
  "GLOBAL_POOL (snd (q_with_conn w c sql ps t s)) = GLOBAL_POOL s"
  by (simp_all add: q_with_conn_def Let_def split: sum.splits)

lemma q_with_conn_logged:
  "only_warnings P \<Longrightarrow>
   filter P (logged (snd (q_with_conn w c sql ps t s))) =
     filter P (logged s) @
       (case conn_fetch w c sql (unpack ps) t of
          Inl e \<Rightarrow> []
        | Inr rows \<Rightarrow>
            if float_sub w (time_pool_done w) (time_start w) > 1 then
              filter P
                [(WARNING, Msg_slow_query (float_sub w (time_pool_done w) (time_start w)) (take 100 sql))]
            else [])"
  by (simp add: q_with_conn_def Let_def split: sum.splits)

lemma q_try_get_pool_fails:
  "fst (get_pool w s) = Inl e \<Longrightarrow> q_try w sql ps t s = (Inl e, ps, snd (get_pool w s))"
  by (simp add: q_try_def split_beta)


lemma q_try_result:
  "fst (get_pool w s) = Inr p \<Longrightarrow> pool_acquire w p = Inr c \<Longrightarrow>
   fst (q_try w sql ps t s) =
     (case pool_release w p c of
        Some e \<Rightarrow> Inl e
      | None \<Rightarrow> conn_fetch w c sql (unpack (normalize_params ps)) t)
   \<and> fst (snd (q_try w sql ps t s)) = normalize_params ps"
  by (simp add: q_try_def split_beta Let_def split: option.splits)

lemma q_try_GLOBAL [simp]:
  "GLOBAL_POOL (snd (snd (q_try w sql ps t s))) = GLOBAL_POOL (snd (get_pool w s))"
  by (simp add: q_try_def split_beta Let_def split: sum.splits option.splits)

lemma q_try_connects [simp]:
  "filter is_connect (calls (snd (snd (q_try w sql ps t s)))) = filter is_connect (calls s)"
  by (simp add: q_try_def split_beta Let_def get_pool_calls split: sum.splits option.splits)

lemma q_try_timeout_warnings [simp]:
  "filter is_pool_timeout_warning (logged (snd (snd (q_try w sql ps t s)))) =
   filter is_pool_timeout_warning (logged s)"
  by (simp add: q_try_def split_beta Let_def q_with_conn_logged is_pool_timeout_warning_def
      split: sum.splits option.splits)

lemma q_try_slow_warnings:
  "filter is_slow_warning (logged (snd (snd (q_try w sql ps t s)))) =
   filter is_slow_warning (logged s) @
     (case fst (get_pool w s) of
        Inl e \<Rightarrow> []
      | Inr p \<Rightarrow>
          (case pool_acquire w p of
             Inl e \<Rightarrow> []
           | Inr c \<Rightarrow>
               (case conn_fetch w c sql (unpack (normalize_params ps)) t of
                  Inl e \<Rightarrow> []
                | Inr rows \<Rightarrow>
                    if float_sub w (time_pool_done w) (time_start w) > 1 then
                      [(WARNING,
                        Msg_slow_query (float_sub w (time_pool_done w) (time_start w)) (take 100 sql))]
                    else [])))"
  by (simp add: q_try_def split_beta Let_def q_with_conn_logged is_slow_warning_def
      split: sum.splits option.splits)

section \<open>The direct attempt of q\<close>

lemma q_direct_except_frame [simp]:
  "fst (q_direct_except e s) = Inl e"
  "calls (snd (q_direct_except e s)) = calls s"
  "GLOBAL_POOL (snd (q_direct_except e s)) = GLOBAL_POOL s"
  "only_warnings P \<Longrightarrow> filter P (logged (snd (q_direct_except e s))) = filter P (logged s)"
  by (simp_all add: q_direct_except_def)

lemma q_direct_GLOBAL [simp]:
  "GLOBAL_POOL (snd (q_direct w sql ps t e s)) = GLOBAL_POOL s"
  by (simp add: q_direct_def split_beta Let_def split: sum.splits option.splits)

lemma q_direct_logged:
  "only_warnings P \<Longrightarrow>
   filter P (logged (snd (q_direct w sql ps t e s))) =
     filter P (logged s) @ filter P [(WARNING, Msg_pool_timeout (str e))]"
  by (simp add: q_direct_def split_beta Let_def split: sum.splits option.splits)


lemma q_direct_connect_fails:
  "environ_TS_DSN w = Some d \<Longrightarrow> d \<noteq> [] \<Longrightarrow> connect w d = Inl e2 \<Longrightarrow>
   fst (q_direct w sql ps t e s) = Inl e2
   \<and> calls (snd (q_direct w sql ps t e s)) = calls s @ [Ev_connect d]"
  by (simp add: q_direct_def split_beta Let_def dsn_set)

lemma q_direct_connected:
  "environ_TS_DSN w = Some d \<Longrightarrow> d \<noteq> [] \<Longrightarrow> connect w d = Inr c \<Longrightarrow>
   fst (q_direct w sql ps t e s) =
     (case conn_close w c of
        Some e3 \<Rightarrow> Inl e3
      | None \<Rightarrow> conn_fetch w c sql (unpack ps) t)
   \<and> calls (snd (q_direct w sql ps t e s)) =
       calls s @ [Ev_connect d, Ev_fetch c sql (unpack ps) t, Ev_conn_close c]"
  by (simp add: q_direct_def split_beta Let_def dsn_set split: sum.splits option.splits)


section \<open>q as a whole\<close>

lemma q_not_timed_out:
  "fst (q_try w sql ps t s) = Inl e \<Longrightarrow> \<not> is_TimeoutError e \<Longrightarrow>
   fst (q w sql ps t s) = Inl e
   \<and> calls (snd (q w sql ps t s)) = calls (snd (snd (q_try w sql ps t s)))
   \<and> filter is_pool_timeout_warning (logged (snd (q w sql ps t s))) =
       filter is_pool_timeout_warning (logged s)"
  by (simp add: q_def split_beta)

lemma q_timed_out:
  "fst (q_try w sql ps t s) = Inl e \<Longrightarrow> is_TimeoutError e \<Longrightarrow>
   q w sql ps t s =
     q_direct w sql (fst (snd (q_try w sql ps t s))) t e (snd (snd (q_try w sql ps t s)))"
  by (simp add: q_def split_beta)

lemma q_returned:
  "fst (q_try w sql ps t s) = Inr rows \<Longrightarrow>
   q w sql ps t s = (Inr rows, snd (snd (q_try w sql ps t s)))"
  by (simp add: q_def split_beta)

lemma q_GLOBAL:
  "GLOBAL_POOL (snd (q w sql ps t s)) = GLOBAL_POOL (snd (get_pool w s))"
  by (simp add: q_def split_beta split: sum.splits)



lemma q_slow_warnings:
  "slow_warnings (snd (q w sql ps t s)) =
     filter is_slow_warning (logged (snd (snd (q_try w sql ps t s))))"
  by (simp add: q_def split_beta slow_warnings_def q_direct_logged is_slow_warning_def
      split: sum.splits)

section \<open>The pooled attempt of execute_query\<close>

lemma execute_with_conn_frame [simp]:
  "fst (execute_with_conn w c sql ps t s) =
     (case conn_execute w c sql (unpack ps) t of Some e \<Rightarrow> Inl e | None \<Rightarrow> Inr ())"
  "calls (snd (execute_with_conn w c sql ps t s)) = calls s @ [Ev_execute c sql (unpack ps) t]"
  "GLOBAL_POOL (snd (execute_with_conn w c sql ps t s)) = GLOBAL_POOL s"
  by (simp_all add: execute_with_conn_def Let_def split: sum.splits option.splits)

lemma execute_with_conn_logged:
  "only_warnings P \<Longrightarrow>
   filter P (logged (snd (execute_with_conn w c sql ps t s))) =
     filter P (logged s) @
       (case conn_execute w c sql (unpack ps) t of
          Some e \<Rightarrow> []
        | None \<Rightarrow>
            if float_sub w (time_pool_done w) (time_start w) > 1 then
              filter P
                [(WARNING, Msg_slow_execute (float_sub w (time_pool_done w) (time_start w)) (take 100 sql))]
            else [])"
  by (simp add: execute_with_conn_def Let_def split: sum.splits option.splits)

lemma execute_try_get_pool_fails:
  "fst (get_pool w s) = Inl e \<Longrightarrow> execute_try w sql ps t s = (Inl e, ps, snd (get_pool w s))"
  by (simp add: execute_try_def split_beta)


lemma execute_try_result:
  "fst (get_pool w s) = Inr p \<Longrightarrow> pool_acquire w p = Inr c \<Longrightarrow>
   fst (execute_try w sql ps t s) =
     (case pool_release w p c of
        Some e \<Rightarrow> Inl e
      | None \<Rightarrow>
          (case conn_execute w c sql (unpack (normalize_params ps)) t of
             Some e \<Rightarrow> Inl e
           | None \<Rightarrow> Inr ()))
   \<and> fst (snd (execute_try w sql ps t s)) = normalize_params ps"
  by (simp add: execute_try_def split_beta Let_def split: option.splits)

lemma execute_try_GLOBAL [simp]:
  "GLOBAL_POOL (snd (snd (execute_try w sql ps t s))) = GLOBAL_POOL (snd (get_pool w s))"
  by (simp add: execute_try_def split_beta Let_def split: sum.splits option.splits)

lemma execute_try_connects [simp]:
  "filter is_connect (calls (snd (snd (execute_try w sql ps t s)))) = filter is_connect (calls s)"
  by (simp add: execute_try_def split_beta Let_def get_pool_calls split: sum.splits option.splits)

lemma execute_try_timeout_warnings [simp]:
  "filter is_pool_timeout_warning (logged (snd (snd (execute_try w sql ps t s)))) =
   filter is_pool_timeout_warning (logged s)"
  by (simp add: execute_try_def split_beta Let_def execute_with_conn_logged is_pool_timeout_warning_def
      split: sum.splits option.splits)

lemma execute_try_slow_warnings:
  "filter is_slow_warning (logged (snd (snd (execute_try w sql ps t s)))) =
   filter is_slow_warning (logged s) @
     (case fst (get_pool w s) of
        Inl e \<Rightarrow> []
      | Inr p \<Rightarrow>
          (case pool_acquire w p of
             Inl e \<Rightarrow> []
           | Inr c \<Rightarrow>
               (case conn_execute w c sql (unpack (normalize_params ps)) t of
                  Some e \<Rightarrow> []
                | None \<Rightarrow>
                    if float_sub w (time_pool_done w) (time_start w) > 1 then
                      [(WARNING,
                        Msg_slow_execute (float_sub w (time_pool_done w) (time_start w)) (take 100 sql))]
                    else [])))"
  by (simp add: execute_try_def split_beta Let_def execute_with_conn_logged is_slow_warning_def
      split: sum.splits option.splits)

section \<open>The direct attempt of execute_query\<close>

lemma execute_direct_except_frame [simp]:
  "fst (execute_direct_except e s) = Inl e"
  "calls (snd (execute_direct_except e s)) = calls s"
  "GLOBAL_POOL (snd (execute_direct_except e s)) = GLOBAL_POOL s"
  "only_warnings P \<Longrightarrow> filter P (logged (snd (execute_direct_except e s))) = filter P (logged s)"
  by (simp_all add: execute_direct_except_def)

lemma execute_direct_GLOBAL [simp]:
  "GLOBAL_POOL (snd (execute_direct w sql ps t e s)) = GLOBAL_POOL s"
  by (simp add: execute_direct_def split_beta Let_def split: sum.splits option.splits)

lemma execute_direct_logged:
  "only_warnings P \<Longrightarrow>
   filter P (logged (snd (execute_direct w sql ps t e s))) =
     filter P (logged s) @ filter P [(WARNING, Msg_pool_timeout_execute (str e))]"
  by (simp add: execute_direct_def split_beta Let_def split: sum.splits option.splits)


lemma execute_direct_connect_fails:
  "environ_TS_DSN w = Some d \<Longrightarrow> d \<noteq> [] \<Longrightarrow> connect w d = Inl e2 \<Longrightarrow>
   fst (execute_direct w sql ps t e s) = Inl e2
   \<and> calls (snd (execute_direct w sql ps t e s)) = calls s @ [Ev_connect d]"
  by (simp add: execute_direct_def split_beta Let_def dsn_set split: option.splits)

lemma execute_direct_connected:
  "environ_TS_DSN w = Some d \<Longrightarrow> d \<noteq> [] \<Longrightarrow> connect w d = Inr c \<Longrightarrow>
   fst (execute_direct w sql ps t e s) =
     (case conn_close w c of
        Some e3 \<Rightarrow> Inl e3
      | None \<Rightarrow>
          (case conn_execute w c sql (unpack ps) t of
             Some e2 \<Rightarrow> Inl e2
           | None \<Rightarrow> Inr ()))
   \<and> calls (snd (execute_direct w sql ps t e s)) =
       calls s @ [Ev_connect d, Ev_execute c sql (unpack ps) t, Ev_conn_close c]"
  by (simp add: execute_direct_def split_beta Let_def dsn_set split: sum.splits option.splits)


section \<open>execute_query as a whole\<close>

lemma execute_query_not_timed_out:
  "fst (execute_try w sql ps t s) = Inl e \<Longrightarrow> \<not> is_TimeoutError e \<Longrightarrow>
   fst (execute_query w sql ps t s) = Inl e
   \<and> calls (snd (execute_query w sql ps t s)) = calls (snd (snd (execute_try w sql ps t s)))
   \<and> filter is_pool_timeout_warning (logged (snd (execute_query w sql ps t s))) =
       filter is_pool_timeout_warning (logged s)"
  by (simp add: execute_query_def split_beta)

lemma execute_query_timed_out:
  "fst (execute_try w sql ps t s) = Inl e \<Longrightarrow> is_TimeoutError e \<Longrightarrow>
   execute_query w sql ps t s =
     execute_direct w sql (fst (snd (execute_try w sql ps t s))) t e (snd (snd (execute_try w sql ps t s)))"
  by (simp add: execute_query_def split_beta)

lemma execute_query_returned:
  "fst (execute_try w sql ps t s) = Inr u \<Longrightarrow>
   execute_query w sql ps t s = (Inr (), snd (snd (execute_try w sql ps t s)))"
  by (simp add: execute_query_def split_beta)

lemma execute_query_GLOBAL:
  "GLOBAL_POOL (snd (execute_query w sql ps t s)) = GLOBAL_POOL (snd (get_pool w s))"
  by (simp add: execute_query_def split_beta split: sum.splits option.splits)



lemma execute_query_slow_warnings:
  "slow_warnings (snd (execute_query w sql ps t s)) =
     filter is_slow_warning (logged (snd (snd (execute_try w sql ps t s))))"
  by (simp add: execute_query_def split_beta slow_warnings_def execute_direct_logged is_slow_warning_def
      split: sum.splits option.splits)

section \<open>Evaluating sample runs\<close>

lemmas run_defs =
  q_def q_try_def q_with_conn_def q_direct_def q_direct_except_def
  execute_query_def execute_try_def execute_with_conn_def execute_direct_def
  execute_direct_except_def get_pool_def get_pool_except_def dsn_def close_pool_def
  normalize_params_def unpack_def is_TimeoutError_def is_Exception_def str_def
  logger_def call_def Let_def

section \<open>When the fallback is taken\<close>














section \<open>The single direct attempt\<close>








section \<open>Failed construction and shutdown of the pool\<close>

lemma get_pool_result_depends:
  "GLOBAL_POOL s1 = GLOBAL_POOL s2 \<Longrightarrow>
   fst (get_pool w s1) = fst (get_pool w s2)
   \<and> GLOBAL_POOL (snd (get_pool w s1)) = GLOBAL_POOL (snd (get_pool w s2))"
  by (simp add: get_pool_def get_pool_except_def dsn_def Let_def
      split: option.splits sum.splits)

lemma get_pool_failure_from_create_pool:
  assumes "fst (get_pool w s) = Inl e" "environ_TS_DSN w = Some d" "d \<noteq> []"
  shows "create_pool w d 1 10 30 30 = Inl e"
  using get_pool_create [OF get_pool_fails_unset [OF assms(1)] assms(2,3)] assms(1) by simp

lemma get_pool_failure_retry:
  assumes "fst (get_pool w s) = Inl e"
  shows "GLOBAL_POOL (snd (get_pool w s)) = None
    \<and> (\<forall>d. environ_TS_DSN w = Some d \<and> d \<noteq> [] \<longrightarrow> create_pool w d 1 10 30 30 = Inl e)
    \<and> fst (get_pool w' (snd (get_pool w s))) = fst (get_pool w' s)
    \<and> GLOBAL_POOL (snd (get_pool w' (snd (get_pool w s)))) = GLOBAL_POOL (snd (get_pool w' s))
    \<and> (\<forall>d'. environ_TS_DSN w' = Some d' \<and> d' \<noteq> [] \<longrightarrow>
          calls (snd (get_pool w' (snd (get_pool w s)))) =
            calls (snd (get_pool w s)) @ [Ev_create_pool d' 1 10 30 30]
          \<and> fst (get_pool w' (snd (get_pool w s))) = create_pool w' d' 1 10 30 30
          \<and> (\<forall>p. create_pool w' d' 1 10 30 30 = Inr p \<longrightarrow>
                GLOBAL_POOL (snd (get_pool w' (snd (get_pool w s)))) = Some p))"
proof -
  have unset: "GLOBAL_POOL s = None"
    using assms by (rule get_pool_fails_unset)
  have unset': "GLOBAL_POOL (snd (get_pool w s)) = None"
    using assms by (simp add: get_pool_GLOBAL)
  have same: "GLOBAL_POOL (snd (get_pool w s)) = GLOBAL_POOL s"
    using unset unset' by simp
  have retry: "fst (get_pool w' (snd (get_pool w s))) = fst (get_pool w' s)
    \<and> GLOBAL_POOL (snd (get_pool w' (snd (get_pool w s)))) = GLOBAL_POOL (snd (get_pool w' s))"
    using same by (rule get_pool_result_depends)
  have raised: "\<forall>d. environ_TS_DSN w = Some d \<and> d \<noteq> [] \<longrightarrow> create_pool w d 1 10 30 30 = Inl e"
    using get_pool_failure_from_create_pool [OF assms] by blast
  have again: "\<forall>d'. environ_TS_DSN w' = Some d' \<and> d' \<noteq> [] \<longrightarrow>
          calls (snd (get_pool w' (snd (get_pool w s)))) =
            calls (snd (get_pool w s)) @ [Ev_create_pool d' 1 10 30 30]
          \<and> fst (get_pool w' (snd (get_pool w s))) = create_pool w' d' 1 10 30 30
          \<and> (\<forall>p. create_pool w' d' 1 10 30 30 = Inr p \<longrightarrow>
                GLOBAL_POOL (snd (get_pool w' (snd (get_pool w s)))) = Some p)"
    using get_pool_create [OF unset', of w'] by auto
  from unset' raised retry again show ?thesis by blast
qed

text \<open>
  Claim C5. When pool creation fails, \<^verbatim>\<open>get_pool\<close> hands that exception to its
  caller. Whenever \<^verbatim>\<open>get_pool\<close> fails, the global is unset afterwards and a later
  call starts over, as on a state that never had a pool: it calls
  \<^verbatim>\<open>asyncpg.create_pool\<close> again and stores the pool it gets.
\<close>

theorem get_pool_failure_leaves_unset:
  "(\<forall>d. GLOBAL_POOL s = None \<and> environ_TS_DSN w = Some d \<and> d \<noteq> []
        \<and> create_pool w d 1 10 30 30 = Inl e \<longrightarrow>
        fst (get_pool w s) = Inl e)
   \<and> (fst (get_pool w s) = Inl e \<longrightarrow>
        GLOBAL_POOL (snd (get_pool w s)) = None
        \<and> (\<forall>d. environ_TS_DSN w = Some d \<and> d \<noteq> [] \<longrightarrow> create_pool w d 1 10 30 30 = Inl e)
        \<and> fst (get_pool w' (snd (get_pool w s))) = fst (get_pool w' s)
        \<and> GLOBAL_POOL (snd (get_pool w' (snd (get_pool w s)))) =
            GLOBAL_POOL (snd (get_pool w' s))
        \<and> (\<forall>d'. environ_TS_DSN w' = Some d' \<and> d' \<noteq> [] \<longrightarrow>
              calls (snd (get_pool w' (snd (get_pool w s)))) =
                calls (snd (get_pool w s)) @ [Ev_create_pool d' 1 10 30 30]
              \<and> fst (get_pool w' (snd (get_pool w s))) = create_pool w' d' 1 10 30 30
              \<and> (\<forall>p. create_pool w' d' 1 10 30 30 = Inr p \<longrightarrow>
                    GLOBAL_POOL (snd (get_pool w' (snd (get_pool w s)))) = Some p)))"
proof (rule conjI)
  show "\<forall>d. GLOBAL_POOL s = None \<and> environ_TS_DSN w = Some d \<and> d \<noteq> []
        \<and> create_pool w d 1 10 30 30 = Inl e \<longrightarrow>
        fst (get_pool w s) = Inl e"
    using get_pool_create [of s w] by simp
next
  show "fst (get_pool w s) = Inl e \<longrightarrow>
        GLOBAL_POOL (snd (get_pool w s)) = None
        \<and> (\<forall>d. environ_TS_DSN w = Some d \<and> d \<noteq> [] \<longrightarrow> create_pool w d 1 10 30 30 = Inl e)
        \<and> fst (get_pool w' (snd (get_pool w s))) = fst (get_pool w' s)
        \<and> GLOBAL_POOL (snd (get_pool w' (snd (get_pool w s)))) =
            GLOBAL_POOL (snd (get_pool w' s))
        \<and> (\<forall>d'. environ_TS_DSN w' = Some d' \<and> d' \<noteq> [] \<longrightarrow>
              calls (snd (get_pool w' (snd (get_pool w s)))) =
                calls (snd (get_pool w s)) @ [Ev_create_pool d' 1 10 30 30]
              \<and> fst (get_pool w' (snd (get_pool w s))) = create_pool w' d' 1 10 30 30
              \<and> (\<forall>p. create_pool w' d' 1 10 30 30 = Inr p \<longrightarrow>
                    GLOBAL_POOL (snd (get_pool w' (snd (get_pool w s)))) = Some p))"
    by (rule impI) (rule get_pool_failure_retry)
qed

theorem get_pool_failure_leaves_unset_witness:
  "GLOBAL_POOL s_init = None
   \<and> environ_TS_DSN w_refused_pool = Some ''postgresql://ts@db/ksys''
   \<and> create_pool w_refused_pool ''postgresql://ts@db/ksys'' 1 10 30 30 = Inl refused_exn
   \<and> fst (get_pool w_refused_pool s_init) = Inl refused_exn
   \<and> GLOBAL_POOL (snd (get_pool w_refused_pool s_init)) = None
   \<and> calls (snd (get_pool w_ok (snd (get_pool w_refused_pool s_init)))) =
       [Ev_create_pool ''postgresql://ts@db/ksys'' 1 10 30 30,
        Ev_create_pool ''postgresql://ts@db/ksys'' 1 10 30 30]
   \<and> fst (get_pool w_ok (snd (get_pool w_refused_pool s_init))) = Inr 1
   \<and> GLOBAL_POOL (snd (get_pool w_ok (snd (get_pool w_refused_pool s_init)))) = Some 1"
  using get_pool_failure_leaves_unset [of s_init w_refused_pool refused_exn w_ok]
  by (simp add: run_defs w_refused_pool_def w_ok_def s_init_def refused_exn_def)

lemma close_pool_no_pool:
  "GLOBAL_POOL s = None \<Longrightarrow> close_pool w s = (Inr (), s)"
  by (simp add: close_pool_def)

lemma close_pool_closed:
  "GLOBAL_POOL s = Some p \<Longrightarrow> pool_close w p = None \<Longrightarrow>
   fst (close_pool w s) = Inr ()
   \<and> calls (snd (close_pool w s)) = calls s @ [Ev_pool_close p]
   \<and> GLOBAL_POOL (snd (close_pool w s)) = None"
  by (simp add: close_pool_def Let_def)

lemma q_try_pool_creations [simp]:
  "pool_creations (snd (snd (q_try w sql ps t s))) = pool_creations (snd (get_pool w s))"
  by (simp add: q_try_def split_beta Let_def pool_creations_def
      split: sum.splits option.splits)

lemma q_direct_pool_creations [simp]:
  "pool_creations (snd (q_direct w sql ps t e s)) = pool_creations s"
  by (simp add: q_direct_def split_beta Let_def pool_creations_def
      split: sum.splits option.splits)

lemma q_pool_creations:
  "pool_creations (snd (q w sql ps t s)) = pool_creations (snd (get_pool w s))"
proof (cases "fst (q_try w sql ps t s)")
  case (Inr rows)
  then show ?thesis by (simp add: q_returned)
next
  case (Inl e)
  show ?thesis
  proof (cases "is_TimeoutError e")
    case True
    then show ?thesis using q_timed_out [OF Inl True] by simp
  next
    case False
    have "pool_creations (snd (q w sql ps t s)) = pool_creations (snd (snd (q_try w sql ps t s)))"
      using q_not_timed_out [OF Inl False] by (simp add: pool_creations_def)
    then show ?thesis by simp
  qed
qed

lemma execute_try_pool_creations [simp]:
  "pool_creations (snd (snd (execute_try w sql ps t s))) = pool_creations (snd (get_pool w s))"
  by (simp add: execute_try_def split_beta Let_def pool_creations_def
      split: sum.splits option.splits)

lemma execute_direct_pool_creations [simp]:
  "pool_creations (snd (execute_direct w sql ps t e s)) = pool_creations s"
  by (simp add: execute_direct_def split_beta Let_def pool_creations_def
      split: sum.splits option.splits)

lemma execute_query_pool_creations:
  "pool_creations (snd (execute_query w sql ps t s)) = pool_creations (snd (get_pool w s))"
proof (cases "fst (execute_try w sql ps t s)")
  case (Inr u)
  then show ?thesis by (simp add: execute_query_returned)
next
  case (Inl e)
  show ?thesis
  proof (cases "is_TimeoutError e")
    case True
    then show ?thesis using execute_query_timed_out [OF Inl True] by simp
  next
    case False
    have "pool_creations (snd (execute_query w sql ps t s)) =
        pool_creations (snd (snd (execute_try w sql ps t s)))"
      using execute_query_not_timed_out [OF Inl False] by (simp add: pool_creations_def)
    then show ?thesis by simp
  qed
qed

lemma q_rows:
  assumes "fst (get_pool w s) = Inr p" "pool_acquire w p = Inr c" "pool_release w p c = None"
    "conn_fetch w c sql (unpack (normalize_params ps)) t = Inr rows"
  shows "fst (q w sql ps t s) = Inr rows"
proof -
  have "fst (q_try w sql ps t s) = Inr rows"
    using q_try_result [OF assms(1,2), of sql ps t] assms(3,4) by simp
  then show ?thesis by (simp add: q_returned)
qed

lemma execute_query_done:
  assumes "fst (get_pool w s) = Inr p" "pool_acquire w p = Inr c" "pool_release w p c = None"
    "conn_execute w c sql (unpack (normalize_params ps)) t = None"
  shows "fst (execute_query w sql ps t s) = Inr ()"
proof -
  have "fst (execute_try w sql ps t s) = Inr ()"
    using execute_try_result [OF assms(1,2), of sql ps t] assms(3,4) by simp
  then show ?thesis by (simp add: execute_query_returned)
qed

lemma query_recreates_pool:
  assumes "GLOBAL_POOL s = None" "environ_TS_DSN w = Some d" "d \<noteq> []"
  shows "pool_creations (snd (q w sql ps t s)) = pool_creations s @ [Ev_create_pool d 1 10 30 30]"
    and "pool_creations (snd (execute_query w sql ps t s)) =
      pool_creations s @ [Ev_create_pool d 1 10 30 30]"
    and "create_pool w d 1 10 30 30 = Inr p \<Longrightarrow> GLOBAL_POOL (snd (q w sql ps t s)) = Some p"
    and "create_pool w d 1 10 30 30 = Inr p \<Longrightarrow>
      GLOBAL_POOL (snd (execute_query w sql ps t s)) = Some p"
    and "create_pool w d 1 10 30 30 = Inr p \<Longrightarrow> pool_acquire w p = Inr c \<Longrightarrow>
      pool_release w p c = None \<Longrightarrow>
      conn_fetch w c sql (unpack (normalize_params ps)) t = Inr rows \<Longrightarrow>
      fst (q w sql ps t s) = Inr rows"
    and "create_pool w d 1 10 30 30 = Inr p \<Longrightarrow> pool_acquire w p = Inr c \<Longrightarrow>
      pool_release w p c = None \<Longrightarrow>
      conn_execute w c sql (unpack (normalize_params ps)) t = None \<Longrightarrow>
      fst (execute_query w sql ps t s) = Inr ()"
proof -
  note created = get_pool_create [OF assms]
  have once: "pool_creations (snd (get_pool w s)) =
      pool_creations s @ [Ev_create_pool d 1 10 30 30]"
    using created by (simp add: pool_creations_def)
  show "pool_creations (snd (q w sql ps t s)) = pool_creations s @ [Ev_create_pool d 1 10 30 30]"
    using once by (simp add: q_pool_creations)
  show "pool_creations (snd (execute_query w sql ps t s)) =
      pool_creations s @ [Ev_create_pool d 1 10 30 30]"
    using once by (simp add: execute_query_pool_creations)
  show "create_pool w d 1 10 30 30 = Inr p \<Longrightarrow> GLOBAL_POOL (snd (q w sql ps t s)) = Some p"
    using created by (simp add: q_GLOBAL)
  show "create_pool w d 1 10 30 30 = Inr p \<Longrightarrow>
      GLOBAL_POOL (snd (execute_query w sql ps t s)) = Some p"
    using created by (simp add: execute_query_GLOBAL)
  show "create_pool w d 1 10 30 30 = Inr p \<Longrightarrow> pool_acquire w p = Inr c \<Longrightarrow>
      pool_release w p c = None \<Longrightarrow>
      conn_fetch w c sql (unpack (normalize_params ps)) t = Inr rows \<Longrightarrow>
      fst (q w sql ps t s) = Inr rows"
    using created q_rows [of w s p c sql ps t rows] by simp
  show "create_pool w d 1 10 30 30 = Inr p \<Longrightarrow> pool_acquire w p = Inr c \<Longrightarrow>
      pool_release w p c = None \<Longrightarrow>
      conn_execute w c sql (unpack (normalize_params ps)) t = None \<Longrightarrow>
      fst (execute_query w sql ps t s) = Inr ()"
    using created execute_query_done [of w s p c sql ps t] by simp
qed

text \<open>
  Claim C4, as amended. Without a pool \<^verbatim>\<open>close_pool\<close> does nothing. With a pool
  whose \<^verbatim>\<open>close()\<close> returns, it closes the pool and clears the global; a second
  call is then a no-op, and the next query or statement creates a pool again, keeps it
  and runs on it.
\<close>

theorem close_pool_then_query:
  "(GLOBAL_POOL s = None \<longrightarrow> close_pool w s = (Inr (), s))
   \<and> (\<forall>p. GLOBAL_POOL s = Some p \<and> pool_close w p = None \<longrightarrow>
          fst (close_pool w s) = Inr ()
          \<and> calls (snd (close_pool w s)) = calls s @ [Ev_pool_close p]
          \<and> GLOBAL_POOL (snd (close_pool w s)) = None
          \<and> close_pool w2 (snd (close_pool w s)) = (Inr (), snd (close_pool w s)))
   \<and> (\<forall>d. GLOBAL_POOL (snd (close_pool w s)) = None \<and> environ_TS_DSN w3 = Some d \<and> d \<noteq> [] \<longrightarrow>
          pool_creations (snd (q w3 sql ps t (snd (close_pool w s)))) =
            pool_creations (snd (close_pool w s)) @ [Ev_create_pool d 1 10 30 30]
          \<and> pool_creations (snd (execute_query w3 sql ps t (snd (close_pool w s)))) =
              pool_creations (snd (close_pool w s)) @ [Ev_create_pool d 1 10 30 30]
          \<and> (\<forall>p'. create_pool w3 d 1 10 30 30 = Inr p' \<longrightarrow>
                GLOBAL_POOL (snd (q w3 sql ps t (snd (close_pool w s)))) = Some p'
                \<and> GLOBAL_POOL (snd (execute_query w3 sql ps t (snd (close_pool w s)))) = Some p'
                \<and> (\<forall>c rows. pool_acquire w3 p' = Inr c \<and> pool_release w3 p' c = None
                      \<and> conn_fetch w3 c sql (unpack (normalize_params ps)) t = Inr rows \<longrightarrow>
                      fst (q w3 sql ps t (snd (close_pool w s))) = Inr rows)
                \<and> (\<forall>c. pool_acquire w3 p' = Inr c \<and> pool_release w3 p' c = None
                      \<and> conn_execute w3 c sql (unpack (normalize_params ps)) t = None \<longrightarrow>
                      fst (execute_query w3 sql ps t (snd (close_pool w s))) = Inr ())))"
proof -
  have a: "GLOBAL_POOL s = None \<longrightarrow> close_pool w s = (Inr (), s)"
    by (simp add: close_pool_no_pool)
  have b: "\<forall>p. GLOBAL_POOL s = Some p \<and> pool_close w p = None \<longrightarrow>
          fst (close_pool w s) = Inr ()
          \<and> calls (snd (close_pool w s)) = calls s @ [Ev_pool_close p]
          \<and> GLOBAL_POOL (snd (close_pool w s)) = None
          \<and> close_pool w2 (snd (close_pool w s)) = (Inr (), snd (close_pool w s))"
  proof (intro allI impI)
    fix p
    assume h: "GLOBAL_POOL s = Some p \<and> pool_close w p = None"
    then have closed: "fst (close_pool w s) = Inr ()
        \<and> calls (snd (close_pool w s)) = calls s @ [Ev_pool_close p]
        \<and> GLOBAL_POOL (snd (close_pool w s)) = None"
      by (simp add: close_pool_closed)
    then have "close_pool w2 (snd (close_pool w s)) = (Inr (), snd (close_pool w s))"
      by (simp add: close_pool_no_pool)
    with closed show "fst (close_pool w s) = Inr ()
        \<and> calls (snd (close_pool w s)) = calls s @ [Ev_pool_close p]
        \<and> GLOBAL_POOL (snd (close_pool w s)) = None
        \<and> close_pool w2 (snd (close_pool w s)) = (Inr (), snd (close_pool w s))"
      by simp
  qed
  have d: "\<forall>d. GLOBAL_POOL (snd (close_pool w s)) = None \<and> environ_TS_DSN w3 = Some d \<and> d \<noteq> [] \<longrightarrow>
          pool_creations (snd (q w3 sql ps t (snd (close_pool w s)))) =
            pool_creations (snd (close_pool w s)) @ [Ev_create_pool d 1 10 30 30]
          \<and> pool_creations (snd (execute_query w3 sql ps t (snd (close_pool w s)))) =
              pool_creations (snd (close_pool w s)) @ [Ev_create_pool d 1 10 30 30]
          \<and> (\<forall>p'. create_pool w3 d 1 10 30 30 = Inr p' \<longrightarrow>
                GLOBAL_POOL (snd (q w3 sql ps t (snd (close_pool w s)))) = Some p'
                \<and> GLOBAL_POOL (snd (execute_query w3 sql ps t (snd (close_pool w s)))) = Some p'
                \<and> (\<forall>c rows. pool_acquire w3 p' = Inr c \<and> pool_release w3 p' c = None
                      \<and> conn_fetch w3 c sql (unpack (normalize_params ps)) t = Inr rows \<longrightarrow>
                      fst (q w3 sql ps t (snd (close_pool w s))) = Inr rows)
                \<and> (\<forall>c. pool_acquire w3 p' = Inr c \<and> pool_release w3 p' c = None
                      \<and> conn_execute w3 c sql (unpack (normalize_params ps)) t = None \<longrightarrow>
                      fst (execute_query w3 sql ps t (snd (close_pool w s))) = Inr ()))"
  proof (intro allI impI)
    fix d
    assume "GLOBAL_POOL (snd (close_pool w s)) = None \<and> environ_TS_DSN w3 = Some d \<and> d \<noteq> []"
    then have h: "GLOBAL_POOL (snd (close_pool w s)) = None" "environ_TS_DSN w3 = Some d"
      "d \<noteq> []"
      by simp_all
    note again = query_recreates_pool [OF h, where sql = sql and ps = ps and t = t]
    show "pool_creations (snd (q w3 sql ps t (snd (close_pool w s)))) =
            pool_creations (snd (close_pool w s)) @ [Ev_create_pool d 1 10 30 30]
          \<and> pool_creations (snd (execute_query w3 sql ps t (snd (close_pool w s)))) =
              pool_creations (snd (close_pool w s)) @ [Ev_create_pool d 1 10 30 30]
          \<and> (\<forall>p'. create_pool w3 d 1 10 30 30 = Inr p' \<longrightarrow>
                GLOBAL_POOL (snd (q w3 sql ps t (snd (close_pool w s)))) = Some p'
                \<and> GLOBAL_POOL (snd (execute_query w3 sql ps t (snd (close_pool w s)))) = Some p'
                \<and> (\<forall>c rows. pool_acquire w3 p' = Inr c \<and> pool_release w3 p' c = None
                      \<and> conn_fetch w3 c sql (unpack (normalize_params ps)) t = Inr rows \<longrightarrow>
                      fst (q w3 sql ps t (snd (close_pool w s))) = Inr rows)
                \<and> (\<forall>c. pool_acquire w3 p' = Inr c \<and> pool_release w3 p' c = None
                      \<and> conn_execute w3 c sql (unpack (normalize_params ps)) t = None \<longrightarrow>
                      fst (execute_query w3 sql ps t (snd (close_pool w s))) = Inr ()))"
      using again by (intro conjI allI impI; simp)
  qed
  from a b d show ?thesis by (intro conjI)
qed

theorem close_pool_then_query_witness:
  "GLOBAL_POOL s_pooled = Some 1 \<and> pool_close w_ok 1 = None
   \<and> fst (close_pool w_ok s_pooled) = Inr ()
   \<and> calls (snd (close_pool w_ok s_pooled)) = [Ev_pool_close 1]
   \<and> GLOBAL_POOL (snd (close_pool w_ok s_pooled)) = None
   \<and> close_pool w_ok (snd (close_pool w_ok s_pooled)) = (Inr (), snd (close_pool w_ok s_pooled))
   \<and> pool_creations (snd (q w_ok ''SELECT 1'' (PTuple []) 30 (snd (close_pool w_ok s_pooled)))) =
       [Ev_create_pool ''postgresql://ts@db/ksys'' 1 10 30 30]
   \<and> GLOBAL_POOL (snd (q w_ok ''SELECT 1'' (PTuple []) 30 (snd (close_pool w_ok s_pooled)))) =
       Some 1
   \<and> fst (q w_ok ''SELECT 1'' (PTuple []) 30 (snd (close_pool w_ok s_pooled))) =
       Inr [[(''n'', PInt 1)]]
   \<and> GLOBAL_POOL s_init = None \<and> close_pool w_ok s_init = (Inr (), s_init)"
  using close_pool_then_query [of s_pooled w_ok w_ok w_ok "''SELECT 1''" "PTuple []" 30]
    close_pool_then_query [of s_init w_ok w_ok w_ok "''SELECT 1''" "PTuple []" 30]
  by (simp add: run_defs w_ok_def s_pooled_def s_init_def pool_creations_def)

text \<open>
  Claim C4 as stated fails when \<^verbatim>\<open>close()\<close> raises: \<^verbatim>\<open>close_pool\<close> returns
  normally, the global still points at pool 1, and the next query acquires from that
  pool instead of creating a new one.
\<close>

theorem close_pool_failure_keeps_reference:
  "fst (close_pool w_close_fails s_pooled) = Inr ()
   \<and> GLOBAL_POOL (snd (close_pool w_close_fails s_pooled)) = Some 1
   \<and> calls (snd (q w_ok ''SELECT 1'' (PTuple []) 30 (snd (close_pool w_close_fails s_pooled)))) =
       [Ev_pool_close 1, Ev_acquire 1, Ev_fetch 7 ''SELECT 1'' [] 30, Ev_release 1 7]"
  by (simp add: run_defs w_close_fails_def w_ok_def s_pooled_def close_exn_def)

section \<open>The slow-query warning\<close>

lemma q_slow_total:
  "slow_warnings (snd (q w sql ps t s)) =
     slow_warnings s @
       (case fst (get_pool w s) of
          Inl e \<Rightarrow> []
        | Inr p \<Rightarrow>
            (case pool_acquire w p of
               Inl e \<Rightarrow> []
             | Inr c \<Rightarrow>
                 (case conn_fetch w c sql (unpack (normalize_params ps)) t of
                    Inl e \<Rightarrow> []
                  | Inr rows \<Rightarrow>
                      if float_sub w (time_pool_done w) (time_start w) > 1 then
                        [(WARNING,
                          Msg_slow_query (float_sub w (time_pool_done w) (time_start w)) (take 100 sql))]
                      else [])))"
  by (simp add: q_slow_warnings q_try_slow_warnings) (simp add: slow_warnings_def)

lemma execute_query_slow_total:
  "slow_warnings (snd (execute_query w sql ps t s)) =
     slow_warnings s @
       (case fst (get_pool w s) of
          Inl e \<Rightarrow> []
        | Inr p \<Rightarrow>
            (case pool_acquire w p of
               Inl e \<Rightarrow> []
             | Inr c \<Rightarrow>
                 (case conn_execute w c sql (unpack (normalize_params ps)) t of
                    Some e \<Rightarrow> []
                  | None \<Rightarrow>
                      if float_sub w (time_pool_done w) (time_start w) > 1 then
                        [(WARNING,
                          Msg_slow_execute (float_sub w (time_pool_done w) (time_start w)) (take 100 sql))]
                      else [])))"
  by (simp add: execute_query_slow_warnings execute_try_slow_warnings)
    (simp add: slow_warnings_def)

text \<open>The clock is read for the log only.\<close>

lemma dsn_clock [simp]:
  "dsn (w\<lparr>time_start := a, time_pool_done := b, time_direct_done := c\<rparr>) s = dsn w s"
  by (simp add: dsn_def)

lemma get_pool_clock [simp]:
  "get_pool (w\<lparr>time_start := a, time_pool_done := b, time_direct_done := c\<rparr>) s = get_pool w s"
  by (simp add: get_pool_def Let_def split_beta split: option.splits sum.splits)

lemma dsn_result_state: "fst (dsn w s1) = fst (dsn w s2)"
  by (simp add: dsn_def Let_def)

lemma q_try_clock:
  "fst (q_try (w\<lparr>time_start := a, time_pool_done := b, time_direct_done := c\<rparr>) sql ps t s) =
     fst (q_try w sql ps t s)
   \<and> fst (snd (q_try (w\<lparr>time_start := a, time_pool_done := b, time_direct_done := c\<rparr>)
         sql ps t s)) = fst (snd (q_try w sql ps t s))
   \<and> calls (snd (snd (q_try (w\<lparr>time_start := a, time_pool_done := b, time_direct_done := c\<rparr>)
         sql ps t s))) = calls (snd (snd (q_try w sql ps t s)))"
  by (simp add: q_try_def split_beta Let_def split: sum.splits option.splits)

lemma q_direct_clock:
  "calls s1 = calls s2 \<Longrightarrow>
   fst (q_direct (w\<lparr>time_start := a, time_pool_done := b, time_direct_done := c\<rparr>)
     sql ps t e s1) = fst (q_direct w sql ps t e s2)
   \<and> calls (snd (q_direct (w\<lparr>time_start := a, time_pool_done := b, time_direct_done := c\<rparr>)
       sql ps t e s1)) = calls (snd (q_direct w sql ps t e s2))"
  using dsn_result_state [of w "logger WARNING (Msg_pool_timeout (str e)) s1"
      "logger WARNING (Msg_pool_timeout (str e)) s2"]
  by (simp add: q_direct_def split_beta Let_def split: sum.splits option.splits)

lemma q_clock:
  "fst (q (w\<lparr>time_start := a, time_pool_done := b, time_direct_done := c\<rparr>) sql ps t s) =
     fst (q w sql ps t s)
   \<and> calls (snd (q (w\<lparr>time_start := a, time_pool_done := b, time_direct_done := c\<rparr>)
       sql ps t s)) = calls (snd (q w sql ps t s))
   \<and> GLOBAL_POOL (snd (q (w\<lparr>time_start := a, time_pool_done := b, time_direct_done := c\<rparr>)
       sql ps t s)) = GLOBAL_POOL (snd (q w sql ps t s))"
  using q_try_clock [where w = w and a = a and b = b and c = c and sql = sql and ps = ps
        and t = t and s = s]
    q_direct_clock [where ?s1.0 = "snd (snd (q_try (w\<lparr>time_start := a, time_pool_done := b,
          time_direct_done := c\<rparr>) sql ps t s))"
        and ?s2.0 = "snd (snd (q_try w sql ps t s))" and w = w and a = a and b = b and c = c
        and sql = sql and ps = "fst (snd (q_try w sql ps t s))" and t = t]
  by (simp add: q_GLOBAL) (simp add: q_def split_beta split: sum.splits)

lemma execute_try_clock:
  "fst (execute_try (w\<lparr>time_start := a, time_pool_done := b, time_direct_done := c\<rparr>)
     sql ps t s) = fst (execute_try w sql ps t s)
   \<and> fst (snd (execute_try (w\<lparr>time_start := a, time_pool_done := b, time_direct_done := c\<rparr>)
         sql ps t s)) = fst (snd (execute_try w sql ps t s))
   \<and> calls (snd (snd (execute_try
         (w\<lparr>time_start := a, time_pool_done := b, time_direct_done := c\<rparr>)
         sql ps t s))) = calls (snd (snd (execute_try w sql ps t s)))"
  by (simp add: execute_try_def split_beta Let_def split: sum.splits option.splits)

lemma execute_direct_clock:
  "calls s1 = calls s2 \<Longrightarrow>
   fst (execute_direct (w\<lparr>time_start := a, time_pool_done := b, time_direct_done := c\<rparr>)
     sql ps t e s1) = fst (execute_direct w sql ps t e s2)
   \<and> calls (snd (execute_direct
       (w\<lparr>time_start := a, time_pool_done := b, time_direct_done := c\<rparr>)
       sql ps t e s1)) = calls (snd (execute_direct w sql ps t e s2))"
  using dsn_result_state [of w "logger WARNING (Msg_pool_timeout_execute (str e)) s1"
      "logger WARNING (Msg_pool_timeout_execute (str e)) s2"]
  by (simp add: execute_direct_def split_beta Let_def split: sum.splits option.splits)

lemma execute_query_clock:
  "fst (execute_query (w\<lparr>time_start := a, time_pool_done := b, time_direct_done := c\<rparr>)
     sql ps t s) = fst (execute_query w sql ps t s)
   \<and> calls (snd (execute_query
       (w\<lparr>time_start := a, time_pool_done := b, time_direct_done := c\<rparr>)
       sql ps t s)) = calls (snd (execute_query w sql ps t s))
   \<and> GLOBAL_POOL (snd (execute_query
       (w\<lparr>time_start := a, time_pool_done := b, time_direct_done := c\<rparr>)
       sql ps t s)) = GLOBAL_POOL (snd (execute_query w sql ps t s))"
  using execute_try_clock [where w = w and a = a and b = b and c = c and sql = sql and ps = ps
        and t = t and s = s]
    execute_direct_clock [where ?s1.0 = "snd (snd (execute_try (w\<lparr>time_start := a,
          time_pool_done := b, time_direct_done := c\<rparr>) sql ps t s))"
        and ?s2.0 = "snd (snd (execute_try w sql ps t s))" and w = w and a = a and b = b
        and c = c and sql = sql and ps = "fst (snd (execute_try w sql ps t s))" and t = t]
  by (simp add: execute_query_GLOBAL)
    (simp add: execute_query_def split_beta split: sum.splits)

text \<open>
  Claim C7, as amended. The slow-query warning belongs to the pooled path alone: a
  statement that returns on a pooled connection is followed by exactly one warning when
  the elapsed time the code computes, the floating-point difference between the clock
  reading after the statement and the one at the start of the call, is greater than
  \<^verbatim>\<open>1.0\<close>, and by none otherwise; a statement that fails, or cannot be run on a
  pooled connection and goes to the direct connection, leaves no such warning however
  long it took. The clock readings change nothing else: result, asyncpg calls and pool
  are the same for any readings.
\<close>

theorem slow_warning_on_pooled_success:
  "(\<forall>p c rows. fst (get_pool w s) = Inr p \<and> pool_acquire w p = Inr c
        \<and> conn_fetch w c sql (unpack (normalize_params ps)) t = Inr rows \<longrightarrow>
        slow_warnings (snd (q w sql ps t s)) =
          slow_warnings s @
            (if float_sub w (time_pool_done w) (time_start w) > 1 then
               [(WARNING, Msg_slow_query (float_sub w (time_pool_done w) (time_start w)) (take 100 sql))]
             else []))
   \<and> (\<forall>e. fst (get_pool w s) = Inl e \<longrightarrow>
        slow_warnings (snd (q w sql ps t s)) = slow_warnings s)
   \<and> (\<forall>p e. fst (get_pool w s) = Inr p \<and> pool_acquire w p = Inl e \<longrightarrow>
        slow_warnings (snd (q w sql ps t s)) = slow_warnings s)
   \<and> (\<forall>p c e. fst (get_pool w s) = Inr p \<and> pool_acquire w p = Inr c
        \<and> conn_fetch w c sql (unpack (normalize_params ps)) t = Inl e \<longrightarrow>
        slow_warnings (snd (q w sql ps t s)) = slow_warnings s)
   \<and> fst (q (w\<lparr>time_start := a, time_pool_done := b, time_direct_done := c'\<rparr>) sql ps t s) =
       fst (q w sql ps t s)
   \<and> calls (snd (q (w\<lparr>time_start := a, time_pool_done := b, time_direct_done := c'\<rparr>)
         sql ps t s)) = calls (snd (q w sql ps t s))
   \<and> GLOBAL_POOL (snd (q (w\<lparr>time_start := a, time_pool_done := b, time_direct_done := c'\<rparr>)
         sql ps t s)) = GLOBAL_POOL (snd (q w sql ps t s))
   \<and> (\<forall>p c. fst (get_pool w s) = Inr p \<and> pool_acquire w p = Inr c
        \<and> conn_execute w c sql (unpack (normalize_params ps)) t = None \<longrightarrow>
        slow_warnings (snd (execute_query w sql ps t s)) =
          slow_warnings s @
            (if float_sub w (time_pool_done w) (time_start w) > 1 then
               [(WARNING, Msg_slow_execute (float_sub w (time_pool_done w) (time_start w)) (take 100 sql))]
             else []))
   \<and> (\<forall>e. fst (get_pool w s) = Inl e \<longrightarrow>
        slow_warnings (snd (execute_query w sql ps t s)) = slow_warnings s)
   \<and> (\<forall>p e. fst (get_pool w s) = Inr p \<and> pool_acquire w p = Inl e \<longrightarrow>
        slow_warnings (snd (execute_query w sql ps t s)) = slow_warnings s)
   \<and> (\<forall>p c e. fst (get_pool w s) = Inr p \<and> pool_acquire w p = Inr c
        \<and> conn_execute w c sql (unpack (normalize_params ps)) t = Some e \<longrightarrow>
        slow_warnings (snd (execute_query w sql ps t s)) = slow_warnings s)
   \<and> fst (execute_query (w\<lparr>time_start := a, time_pool_done := b, time_direct_done := c'\<rparr>)
         sql ps t s) = fst (execute_query w sql ps t s)
   \<and> calls (snd (execute_query
         (w\<lparr>time_start := a, time_pool_done := b, time_direct_done := c'\<rparr>) sql ps t s)) =
       calls (snd (execute_query w sql ps t s))
   \<and> GLOBAL_POOL (snd (execute_query
         (w\<lparr>time_start := a, time_pool_done := b, time_direct_done := c'\<rparr>) sql ps t s)) =
       GLOBAL_POOL (snd (execute_query w sql ps t s))"
  using q_clock [where w = w and a = a and b = b and c = c' and sql = sql and ps = ps
      and t = t and s = s]
    execute_query_clock [where w = w and a = a and b = b and c = c' and sql = sql and ps = ps
      and t = t and s = s]
  by (simp add: q_slow_total execute_query_slow_total)

theorem slow_warning_on_pooled_success_witness:
  "fst (get_pool w_slow s_pooled) = Inr 1 \<and> pool_acquire w_slow 1 = Inr 7
   \<and> conn_fetch w_slow 7 ''SELECT 1'' (unpack (normalize_params (PTuple []))) 30 =
       Inr [[(''n'', PInt 1)]]
   \<and> float_sub w_slow (time_pool_done w_slow) (time_start w_slow) = 2
   \<and> slow_warnings (snd (q w_slow ''SELECT 1'' (PTuple []) 30 s_pooled)) =
       [(WARNING, Msg_slow_query 2 ''SELECT 1'')]
   \<and> slow_warnings (snd (execute_query w_slow ''DELETE FROM t'' (PTuple []) 30 s_pooled)) =
       [(WARNING, Msg_slow_execute 2 ''DELETE FROM t'')]
   \<and> float_sub w_ok (time_pool_done w_ok) (time_start w_ok) = 1 / 4
   \<and> slow_warnings (snd (q w_ok ''SELECT 1'' (PTuple []) 30 s_pooled)) = []
   \<and> fst (q w_slow ''SELECT 1'' (PTuple []) 30 s_pooled) =
       fst (q w_ok ''SELECT 1'' (PTuple []) 30 s_pooled)
   \<and> conn_fetch w_sql_error 7 ''SELECT 1'' (unpack (normalize_params (PTuple []))) 30 =
       Inl syntax_exn
   \<and> slow_warnings (snd (q (w_sql_error\<lparr>time_pool_done := 102\<rparr>) ''SELECT 1'' (PTuple []) 30
         s_pooled)) = []
   \<and> fst (get_pool w_refused_pool s_init) = Inl refused_exn
   \<and> slow_warnings (snd (q (w_refused_pool\<lparr>time_pool_done := 102\<rparr>) ''SELECT 1'' (PTuple [])
         30 s_init)) = []
   \<and> pool_acquire w_acquire_timeout 1 = Inl timeout_exn
   \<and> slow_warnings (snd (execute_query w_acquire_timeout ''DELETE FROM t'' (PTuple []) 30
         s_pooled)) = []
   \<and> time_pool_done w_rounding - time_start w_rounding > 1
   \<and> float_sub w_rounding (time_pool_done w_rounding) (time_start w_rounding) = 1
   \<and> slow_warnings (snd (q w_rounding ''SELECT 1'' (PTuple []) 30 s_pooled)) = []"
  using slow_warning_on_pooled_success [of w_slow s_pooled "''SELECT 1''" "PTuple []" 30 0 0 0]
    slow_warning_on_pooled_success [of w_rounding s_pooled "''SELECT 1''" "PTuple []" 30 0 0 0]
    slow_warning_on_pooled_success [of "w_refused_pool\<lparr>time_pool_done := 102\<rparr>" s_init
      "''SELECT 1''" "PTuple []" 30 0 0 0]
    slow_warning_on_pooled_success [of w_acquire_timeout s_pooled "''DELETE FROM t''" "PTuple []"
      30 0 0 0]
    slow_warning_on_pooled_success [of w_slow s_pooled "''DELETE FROM t''" "PTuple []" 30 0 0 0]
    slow_warning_on_pooled_success [of w_ok s_pooled "''SELECT 1''" "PTuple []" 30 100 102 131]
    slow_warning_on_pooled_success [of "w_sql_error\<lparr>time_pool_done := 102\<rparr>" s_pooled
      "''SELECT 1''" "PTuple []" 30 0 0 0]
  by (simp add: run_defs w_slow_def w_ok_def w_sql_error_def w_refused_pool_def
      w_acquire_timeout_def w_rounding_def s_pooled_def s_init_def syntax_exn_def
      refused_exn_def timeout_exn_def slow_warnings_def is_slow_warning_def)

text \<open>
  Claim C7 as stated fails on the fallback path: the pool times out, the query runs
  on the direct connection and returns 31 seconds after the start of the call, and the
  log holds no slow-query warning.
\<close>

theorem slow_fallback_is_not_reported:
  "float_sub w_acquire_timeout (time_direct_done w_acquire_timeout) (time_start w_acquire_timeout) = 31
   \<and> fst (q w_acquire_timeout ''SELECT 1'' (PTuple []) 30 s_pooled) = Inr [[(''n'', PInt 1)]]
   \<and> slow_warnings (snd (q w_acquire_timeout ''SELECT 1'' (PTuple []) 30 s_pooled)) = []
   \<and> logged (snd (q w_acquire_timeout ''SELECT 1'' (PTuple []) 30 s_pooled)) =
       [(WARNING, Msg_pool_timeout []),
        (DEBUG, Msg_dsn_retrieved ''postgresql://ts@db/ksys''),
        (INFO, Msg_direct_completed 31)]"
  by (simp add: run_defs w_acquire_timeout_def w_ok_def s_pooled_def timeout_exn_def
      slow_warnings_def is_slow_warning_def)

section \<open>Parameters given as a mapping\<close>

lemma get_pool_executions [simp]:
  "executions (snd (get_pool w s)) = executions s"
  by (simp add: executions_def get_pool_calls)

lemma pool_timeout_has_dsn:
  assumes "fst (get_pool w s) = Inl e" "is_TimeoutError e" "environ_TS_DSN w = Some d"
  shows "d \<noteq> []"
proof
  assume "d = []"
  then have "fst (get_pool w s) = Inl (Exn RuntimeError ''TS_DSN is not set in environment'')"
    using get_pool_unset_dsn [OF get_pool_fails_unset [OF assms(1)], of w] assms(3) by simp
  then show False using assms(1,2) by (simp add: is_TimeoutError_def)
qed

lemma q_direct_executions:
  "environ_TS_DSN w = Some d \<Longrightarrow> d \<noteq> [] \<Longrightarrow>
   executions (snd (q_direct w sql ps t e s)) =
     executions s @
       (case connect w d of Inl e2 \<Rightarrow> [] | Inr c \<Rightarrow> [Ev_fetch c sql (unpack ps) t])"
  using q_direct_connect_fails [of w d _ sql ps t e s] q_direct_connected [of w d _ sql ps t e s]
  by (simp add: executions_def split: sum.splits)

lemma execute_direct_executions:
  "environ_TS_DSN w = Some d \<Longrightarrow> d \<noteq> [] \<Longrightarrow>
   executions (snd (execute_direct w sql ps t e s)) =
     executions s @
       (case connect w d of Inl e2 \<Rightarrow> [] | Inr c \<Rightarrow> [Ev_execute c sql (unpack ps) t])"
  using execute_direct_connect_fails [of w d _ sql ps t e s]
    execute_direct_connected [of w d _ sql ps t e s]
  by (simp add: executions_def split: sum.splits)

text \<open>
  Claim C10. When \<^verbatim>\<open>get_pool\<close> itself ends in a timeout, \<^verbatim>\<open>params\<close> has not
  been converted yet, and the handler unpacks the dict as it is: the only statement
  executed by the call is the one on the direct connection, and its positional
  arguments are the keys of the mapping, in order.
\<close>

theorem pool_timeout_fallback_passes_keys:
  assumes "fst (get_pool w s) = Inl e" and "is_TimeoutError e"
    and "environ_TS_DSN w = Some dsn'"
  shows "executions (snd (q w sql (PDict d) t s)) =
           executions s @
             (case connect w dsn' of
                Inl e2 \<Rightarrow> []
              | Inr c \<Rightarrow> [Ev_fetch c sql (map fst d) t])
         \<and> executions (snd (execute_query w sql (PDict d) t s)) =
             executions s @
               (case connect w dsn' of
                  Inl e2 \<Rightarrow> []
                | Inr c \<Rightarrow> [Ev_execute c sql (map fst d) t])"
proof -
  have set: "dsn' \<noteq> []"
    using assms by (rule pool_timeout_has_dsn)
  have q_run: "q w sql (PDict d) t s = q_direct w sql (PDict d) t e (snd (get_pool w s))"
    using q_try_get_pool_fails [OF assms(1), of sql "PDict d" t] assms(2)
    by (simp add: q_timed_out)
  have e_run: "execute_query w sql (PDict d) t s =
      execute_direct w sql (PDict d) t e (snd (get_pool w s))"
    using execute_try_get_pool_fails [OF assms(1), of sql "PDict d" t] assms(2)
    by (simp add: execute_query_timed_out)
  show ?thesis
    using q_direct_executions [OF assms(3) set] execute_direct_executions [OF assms(3) set]
    by (simp add: q_run e_run unpack_def split: sum.splits)
qed

theorem pool_timeout_fallback_passes_keys_witness:
  "fst (get_pool w_create_timeout s_init) = Inl timeout_exn
   \<and> is_TimeoutError timeout_exn
   \<and> environ_TS_DSN w_create_timeout = Some ''postgresql://ts@db/ksys''
   \<and> executions (snd (q w_create_timeout ''SELECT $1, $2'' days_tag 30 s_init)) =
       [Ev_fetch 9 ''SELECT $1, $2'' [PStr ''days'', PStr ''tag''] 30]
   \<and> executions (snd (execute_query w_create_timeout ''SELECT $1, $2'' days_tag 30 s_init)) =
       [Ev_execute 9 ''SELECT $1, $2'' [PStr ''days'', PStr ''tag''] 30]"
  using pool_timeout_fallback_passes_keys [of w_create_timeout s_init timeout_exn
      "''postgresql://ts@db/ksys''" "''SELECT $1, $2''"
      "[(PStr ''days'', PInt 7), (PStr ''tag'', PStr ''X'')]" 30]
  by (simp add: run_defs w_create_timeout_def w_ok_def s_init_def timeout_exn_def days_tag_def
      executions_def)

text \<open>
  Claim C6 against the code. On the pooled path the mapping
  \<^verbatim>\<open>{"days": 7, "tag": "X"}\<close> reaches the statement as \<open>(7, "X")\<close>. When creating
  the pool times out, the same call runs the statement on the direct connection with
  \<open>("days", "tag")\<close>: the conversion sits after \<^verbatim>\<open>get_pool()\<close> inside the
  \<^verbatim>\<open>try\<close> block and was skipped.
\<close>

theorem mapping_params_reach_statement:
  "executions (snd (q w_ok ''SELECT $1, $2'' days_tag 30 s_init)) =
     [Ev_fetch 7 ''SELECT $1, $2'' [PInt 7, PStr ''X''] 30]
   \<and> executions (snd (execute_query w_ok ''SELECT $1, $2'' days_tag 30 s_init)) =
       [Ev_execute 7 ''SELECT $1, $2'' [PInt 7, PStr ''X''] 30]
   \<and> executions (snd (q w_create_timeout ''SELECT $1, $2'' days_tag 30 s_init)) =
       [Ev_fetch 9 ''SELECT $1, $2'' [PStr ''days'', PStr ''tag''] 30]
   \<and> executions (snd (execute_query w_create_timeout ''SELECT $1, $2'' days_tag 30 s_init)) =
       [Ev_execute 9 ''SELECT $1, $2'' [PStr ''days'', PStr ''tag''] 30]"
  by (simp add: run_defs w_ok_def w_create_timeout_def s_init_def timeout_exn_def days_tag_def
      executions_def)

end
